theory Spec2Isabelle
  imports Complex_Main "HOL-Library.Log_Nat"
begin

section \<open>Python values, exceptions and attribute access\<close>

text \<open>
  Exceptions are values. \<open>os_error\<close> is the \<open>OSError\<close> family that the file-system calls of
  \<open>file_helper.py\<close> raise (\<open>FileNotFoundError\<close> and \<open>PermissionError\<close> are subclasses of
  \<open>OSError\<close>); \<open>exc\<close> carries the text that \<open>str(ex)\<close> returns.
\<close>

datatype os_error = FileNotFoundError | PermissionError | OSError

datatype exc =
    AttributeError string
  | UnboundLocalError string
  | NameError string
  | TypeError string
  | ValueError string
  | IntegrityError string
  | OperationalError string
  | OSErr os_error string
  | Exception string

fun exc_text :: "exc \<Rightarrow> string" where
  "exc_text (AttributeError m) = m"
| "exc_text (UnboundLocalError m) = m"
| "exc_text (NameError m) = m"
| "exc_text (TypeError m) = m"
| "exc_text (ValueError m) = m"
| "exc_text (IntegrityError m) = m"
| "exc_text (OperationalError m) = m"
| "exc_text (OSErr c m) = m"
| "exc_text (Exception m) = m"

text \<open>Sequencing of statements that may raise: the first exception ends the block.\<close>

fun bind_exc :: "exc + 'a \<Rightarrow> ('a \<Rightarrow> exc + 'b) \<Rightarrow> exc + 'b" where
  "bind_exc (Inl e) f = Inl e"
| "bind_exc (Inr x) f = f x"

text \<open>
  What reading an attribute of an instance yields. A member defined with \<open>@property\<close> yields
  the value its body returns; a member defined by a plain \<open>def\<close> yields the bound method,
  which is an object and therefore true in a condition.
\<close>

datatype pyval = PyBool bool | PyBoundMethod pyval

datatype member = Property pyval | Method pyval

fun py_getattr :: "member \<Rightarrow> pyval" where
  "py_getattr (Property v) = v"
| "py_getattr (Method v) = PyBoundMethod v"

fun truthy :: "pyval \<Rightarrow> bool" where
  "truthy (PyBool b) = b"
| "truthy (PyBoundMethod v) = True"

section \<open>Python floats and number formatting\<close>

text \<open>
  A Python float is an IEEE 754 binary64 value. Every arithmetic operation returns the exact
  result rounded to the nearest value with a 53-bit significand, ties to the even
  significand; converting an integer to a float rounds the same way. Float values are kept
  as the rationals they denote. \<open>binade x\<close> is the exponent \<open>e\<close> with
  \<open>2^e \<le> x < 2^(e+1)\<close>. Overflow and subnormal numbers are outside the model: every float
  the modelled code computes lies between \<open>2^-1000\<close> and \<open>2^1000\<close> in magnitude or is zero.
\<close>

definition round_half_even :: "rat \<Rightarrow> int" where
  "round_half_even q =
     (let f = \<lfloor>q\<rfloor>; r = q - of_int f
      in if r < 1 / 2 then f else if 1 / 2 < r then f + 1 else if even f then f else f + 1)"

definition binade :: "rat \<Rightarrow> int" where
  "binade x =
     (case quotient_of x of (a, b) \<Rightarrow>
        let k = bitlen a - bitlen b in if 2 powi k \<le> x then k else k - 1)"

definition fl64 :: "rat \<Rightarrow> rat" where
  "fl64 x =
     (if x = 0 then 0
      else let u = 2 powi (binade \<bar>x\<bar> - 52)
           in sgn x * of_int (round_half_even (\<bar>x\<bar> / u)) * u)"

text \<open>\<open>int(x)\<close> of a float truncates towards zero.\<close>

definition py_int_of_float :: "rat \<Rightarrow> int" where
  "py_int_of_float x = (if 0 \<le> x then \<lfloor>x\<rfloor> else \<lceil>x\<rceil>)"

text \<open>Decimal rendering of integers, and the padding of the format specs \<open>02d\<close> and \<open>2d\<close>.\<close>

definition digit_char :: "nat \<Rightarrow> char" where
  "digit_char d = char_of (48 + d)"

fun show_nat :: "nat \<Rightarrow> string" where
  "show_nat n = (if n < 10 then [digit_char n] else show_nat (n div 10) @ [digit_char (n mod 10)])"

definition show_int :: "int \<Rightarrow> string" where
  "show_int k = (if k < 0 then CHR ''-'' # show_nat (nat (- k)) else show_nat (nat k))"

definition pad_left :: "char \<Rightarrow> nat \<Rightarrow> string \<Rightarrow> string" where
  "pad_left c w s = replicate (w - length s) c @ s"

section \<open>Tasks\<close>

text \<open>
  The status constants of \<open>services/worker.py\<close>. \<open>STAT_OTHER\<close> stands for an integer that
  is none of the six constants and \<open>STAT_NOT_INT\<close> for a value that is not an integer; both
  are branches of \<open>render_task_status\<close>.
\<close>

datatype stat =
    STAT_WAITING | STAT_FAIL | STAT_STARTED | STAT_FINISH_SUCCESS | STAT_ENDED | STAT_CANCELLED
  | STAT_OTHER | STAT_NOT_INT

text \<open>
  The fields of a \<open>CalibreTask\<close> instance. Times are microseconds since the epoch, \<open>None\<close>
  while unset. \<open>progress\<close> holds the value of a Python float (or the integer 1).
\<close>

record task =
  task_id :: nat
  name :: string
  message :: string
  progress :: rat
  stat :: stat
  is_cancellable :: pyval
  start_time :: "int option"
  end_time :: "int option"
  scheduled :: bool

text \<open>What a task does that others can observe while it runs, in order.\<close>

datatype event =
    Log string
  | HandleSuccess
  | HandleError string
  | SetProgress rat
  | Commit
  | Rollback
  | Close
  | WriteMetadata nat

record run_state =
  rs_task :: task
  rs_trace :: "event list"

definition emit :: "event \<Rightarrow> run_state \<Rightarrow> run_state" where
  "emit e s = s\<lparr>rs_trace := rs_trace s @ [e]\<rparr>"

text \<open>
  Modelled from the spec: \<open>CalibreTask.__init__\<close>, \<open>_handleSuccess\<close> and \<open>_handleError\<close> of
  \<open>services/worker.py\<close>, which is not among the sources. A task is created Waiting with no
  progress and no times and is not scheduled; terminal success sets \<open>stat\<close> to FinishSuccess
  and \<open>progress\<close> to 1.0; a failure is recorded as Fail with the error text surfaced into
  the message.
\<close>

definition CalibreTask_init :: "nat \<Rightarrow> string \<Rightarrow> string \<Rightarrow> pyval \<Rightarrow> task" where
  "CalibreTask_init fresh_id nm msg canc =
     \<lparr>task_id = fresh_id, name = nm, message = msg, progress = 0, stat = STAT_WAITING,
      is_cancellable = canc, start_time = None, end_time = None, scheduled = False\<rparr>"

definition handleSuccess :: "run_state \<Rightarrow> run_state" where
  "handleSuccess s =
     emit HandleSuccess (s\<lparr>rs_task := (rs_task s)\<lparr>stat := STAT_FINISH_SUCCESS, progress := 1\<rparr>\<rparr>)"

definition handleError :: "string \<Rightarrow> run_state \<Rightarrow> run_state" where
  "handleError msg s =
     emit (HandleError msg) (s\<lparr>rs_task := (rs_task s)\<lparr>stat := STAT_FAIL, message := msg\<rparr>\<rparr>)"

subsection \<open>The three task variants of the sources: how each defines \<open>is_cancellable\<close>\<close>

datatype variant = TaskUpload | TaskDeleteTempFolder | TaskBackupMetadata

text \<open>
  \<open>upload.py\<close> lines 41-42 define \<open>is_cancellable\<close> by a plain \<open>def\<close>;
  \<open>tempFolder.py\<close> lines 42-44 and \<open>metadata_backup.py\<close> lines 119-121 define it under
  \<open>@property\<close>.
\<close>

fun is_cancellable_member :: "variant \<Rightarrow> member" where
  "is_cancellable_member TaskUpload = Method (PyBool False)"
| "is_cancellable_member TaskDeleteTempFolder = Property (PyBool False)"
| "is_cancellable_member TaskBackupMetadata = Property (PyBool True)"

definition read_is_cancellable :: "variant \<Rightarrow> pyval" where
  "read_is_cancellable v = py_getattr (is_cancellable_member v)"

subsection \<open>\<open>TaskUpload.__init__\<close>\<close>

text \<open>
  An assignment \<open>self.a = v\<close> stores the attribute. An assignment \<open>super().a = v\<close> goes to
  the \<open>super\<close> proxy object, which has no settable attributes: Python raises
  \<open>AttributeError\<close>.
\<close>

datatype receiver = Self | Super

fun py_setattr :: "receiver \<Rightarrow> string \<Rightarrow> ('o \<Rightarrow> 'o) \<Rightarrow> 'o \<Rightarrow> exc + 'o" where
  "py_setattr Self a upd obj = Inr (upd obj)"
| "py_setattr Super a upd obj =
     Inl (AttributeError (''super object has no attribute '' @ a))"

text \<open>
  \<open>upload.py\<close> lines 24-33. \<open>now\<close> is the reading of \<open>datetime.now()\<close>; the result pairs the
  task with its \<open>book_title\<close>.
\<close>

definition TaskUpload_init :: "nat \<Rightarrow> int \<Rightarrow> string \<Rightarrow> string \<Rightarrow> exc + (task \<times> string)" where
  "TaskUpload_init fresh_id now task_message book_title =
     bind_exc (Inr (CalibreTask_init fresh_id ''Upload'' task_message
                      (read_is_cancellable TaskUpload))) (\<lambda>t0.
     bind_exc (py_setattr Self ''end_time'' (\<lambda>t. t\<lparr>end_time := Some now\<rparr>) t0) (\<lambda>t1.
     bind_exc (py_setattr Self ''start_time'' (\<lambda>t. t\<lparr>start_time := Some now\<rparr>) t1) (\<lambda>t2.
     bind_exc (py_setattr Super ''stat'' (\<lambda>t. t\<lparr>stat := STAT_FINISH_SUCCESS\<rparr>) t2) (\<lambda>t3.
     bind_exc (py_setattr Super ''progress'' (\<lambda>t. t\<lparr>progress := 1\<rparr>) t3) (\<lambda>t4.
     Inr (t4, book_title))))))"

text \<open>\<open>upload.py\<close> lines 34-35: \<open>run\<close> has a docstring for a body.\<close>

definition TaskUpload_run :: "run_state \<Rightarrow> exc + run_state" where
  "TaskUpload_run s = Inr s"

subsection \<open>\<open>TaskDeleteTempFolder.run\<close>\<close>

text \<open>
  The state of the directory \<open>calibre-web\<close> under the system's temporary directory, as
  \<open>shutil.rmtree\<close> meets it.
\<close>

datatype temp_dir = Missing | Removable | NotPermitted | Unremovable

text \<open>\<open>file_helper.py\<close> lines 30-32.\<close>

fun del_temp_dir :: "temp_dir \<Rightarrow> exc + temp_dir" where
  "del_temp_dir Missing = Inl (OSErr FileNotFoundError ''No such file or directory'')"
| "del_temp_dir Removable = Inr Missing"
| "del_temp_dir NotPermitted = Inl (OSErr PermissionError ''Permission denied'')"
| "del_temp_dir Unremovable = Inl (OSErr OSError ''Directory not empty'')"

text \<open>
  \<open>tempFolder.py\<close> lines 29-36. The first clause catches \<open>FileNotFoundError\<close>, the second
  every other member of the \<open>OSError\<close> family; any other exception leaves \<open>run\<close>.
\<close>

definition TaskDeleteTempFolder_run :: "temp_dir \<Rightarrow> run_state \<Rightarrow> exc + (temp_dir \<times> run_state)" where
  "TaskDeleteTempFolder_run d s =
     bind_exc
       (case del_temp_dir d of
          Inr d' \<Rightarrow> Inr (d', s)
        | Inl (OSErr FileNotFoundError m) \<Rightarrow> Inr (d, s)
        | Inl (OSErr c m) \<Rightarrow> Inr (d, emit (Log (''Error deleting temp folder: '' @ m)) s)
        | Inl e \<Rightarrow> Inl e)
       (\<lambda>(d', s'). Inr (d', handleSuccess s'))"

subsection \<open>\<open>TaskBackupMetadata\<close>\<close>

text \<open>
  The database and the file system answer each call of the task; the answers are data.
  \<open>md_env\<close> holds what \<open>open_metadata\<close> meets for one book: whether building the package
  raises, whether Google Drive is configured and ready, and whether the upload or the write
  of \<open>metadata.opf\<close> raises.
\<close>

record book =
  book_id :: nat
  book_path :: string

record md_env =
  md_package :: "exc option"
  md_use_google_drive :: bool
  md_gdrive_ready :: bool
  md_upload :: "exc option"
  md_write :: "exc option"

text \<open>\<open>metadata_backup.py\<close> lines 91-115.\<close>

definition open_metadata :: "md_env \<Rightarrow> book \<Rightarrow> run_state \<Rightarrow> exc + run_state" where
  "open_metadata env bk s =
     (case md_package env of
        Some e \<Rightarrow> Inl e
      | None \<Rightarrow>
          if md_use_google_drive env then
            (if \<not> md_gdrive_ready env
             then Inl (Exception ''Google Drive is configured but not ready'')
             else (case md_upload env of
                     Some e \<Rightarrow> Inl e
                   | None \<Rightarrow> Inr (emit (WriteMetadata (book_id bk)) s)))
          else
            (case md_write env of
               Some e \<Rightarrow>
                 Inl (Exception (''Writing Metadata failed with error: '' @ exc_text e @ '' ''))
             | None \<Rightarrow> Inr (emit (WriteMetadata (book_id bk)) s)))"

text \<open>
  One row of \<open>Metadata_Dirtied\<close> with the answers its loop iteration gets: the lookup of the
  book (a book, \<open>None\<close>, or an exception), the delete of the row, the commit, and the
  environment of \<open>open_metadata\<close>.
\<close>

record backup_step =
  bk_book :: nat
  bk_lookup :: "exc + book option"
  bk_delete :: "exc option"
  bk_commit :: "exc option"
  bk_open :: md_env

text \<open>
  The locals of \<open>backup_metadata\<close>. \<open>bm_book\<close> is the local variable \<open>book\<close>: \<open>None\<close> while
  it has not been assigned, \<open>Some None\<close> when the lookup returned \<open>None\<close>.
\<close>

record bm_state =
  bm_run :: run_state
  bm_book :: "book option option"
  bm_i :: nat

definition set_progress :: "rat \<Rightarrow> run_state \<Rightarrow> run_state" where
  "set_progress p s = emit (SetProgress p) (s\<lparr>rs_task := (rs_task s)\<lparr>progress := p\<rparr>\<rparr>)"

text \<open>
  The value of \<open>(1.0 / count) * i\<close>: both integers are converted to floats, and the quotient
  and the product are rounded.
\<close>

definition progress_value :: "nat \<Rightarrow> nat \<Rightarrow> rat" where
  "progress_value count i = fl64 (fl64 (1 / fl64 (of_nat count)) * fl64 (of_nat i))"

text \<open>
  \<open>metadata_backup.py\<close> lines 70-80, the \<open>for\<close> loop. The result is the exception that ended
  the loop, if any, with the locals as they were at that point.
\<close>

fun backup_loop :: "nat \<Rightarrow> backup_step list \<Rightarrow> bm_state \<Rightarrow> exc option \<times> bm_state" where
  "backup_loop count [] s = (None, s)"
| "backup_loop count (b # bs) s =
     (case bk_lookup b of
        Inl e \<Rightarrow> (Some e, s)
      | Inr bk \<Rightarrow>
          let s1 = s\<lparr>bm_book := Some bk\<rparr> in
          (case bk_delete b of
             Some e \<Rightarrow> (Some e, s1)
           | None \<Rightarrow>
               (case bk_commit b of
                  Some e \<Rightarrow> (Some e, s1)
                | None \<Rightarrow>
                    let r2 = emit Commit (bm_run s1) in
                    (case (case bk of
                             Some found \<Rightarrow> open_metadata (bk_open b) found r2
                           | None \<Rightarrow>
                               Inr (emit (Log (''Book '' @ show_nat (bk_book b)
                                                @ '' not found in database'')) r2)) of
                       Inl e \<Rightarrow> (Some e, s1\<lparr>bm_run := r2\<rparr>)
                     | Inr r3 \<Rightarrow>
                         let i' = bm_i s1 + 1 in
                         backup_loop count bs
                           (s1\<lparr>bm_run := set_progress (progress_value count i') r3,
                               bm_i := i'\<rparr>)))))"

text \<open>
  \<open>metadata_backup.py\<close> lines 61-89. \<open>q_dirtied\<close> and \<open>q_columns\<close> are the answers to the two
  initial queries. The handler of \<open>except Exception\<close> first evaluates \<open>hasattr(book, "id")\<close>;
  reading the local \<open>book\<close> before it has been assigned raises \<open>UnboundLocalError\<close>, which
  leaves the handler and \<open>backup_metadata\<close>.
\<close>

definition backup_try :: "(exc + backup_step list) \<Rightarrow> exc option \<Rightarrow> run_state \<Rightarrow> exc option \<times> bm_state" where
  "backup_try q_dirtied q_columns s =
     (let s0 = \<lparr>bm_run = s, bm_book = None, bm_i = 0\<rparr> in
      case q_dirtied of
        Inl e \<Rightarrow> (Some e, s0)
      | Inr metadata_backup \<Rightarrow>
          (case q_columns of
             Some e \<Rightarrow> (Some e, s0)
           | None \<Rightarrow>
               (case backup_loop (length metadata_backup) metadata_backup s0 of
                  (Some e, s1) \<Rightarrow> (Some e, s1)
                | (None, s1) \<Rightarrow> (None, s1\<lparr>bm_run := emit Close (handleSuccess (bm_run s1))\<rparr>))))"

definition backup_except :: "exc \<Rightarrow> bm_state \<Rightarrow> exc option \<times> run_state" where
  "backup_except ex s =
     (case bm_book s of
        None \<Rightarrow>
          (Some (UnboundLocalError
                   ''cannot access local variable book where it is not associated with a value''),
           bm_run s)
      | Some bk \<Rightarrow>
          let b = (case bk of None \<Rightarrow> ''NaN'' | Some found \<Rightarrow> show_nat (book_id found));
              r1 = emit (Log (''Error creating metadata backup for book '' @ b @ '': ''
                               @ exc_text ex)) (bm_run s);
              r2 = handleError (''Error creating metadata backup: '' @ exc_text ex) r1;
              r3 = emit Rollback r2
          in (None, emit Close r3))"

definition backup_metadata :: "(exc + backup_step list) \<Rightarrow> exc option \<Rightarrow> run_state \<Rightarrow> exc option \<times> run_state" where
  "backup_metadata q_dirtied q_columns s =
     (case backup_try q_dirtied q_columns s of
        (None, s1) \<Rightarrow> (None, bm_run s1)
      | (Some ex, s1) \<Rightarrow> backup_except ex s1)"

text \<open>
  \<open>metadata_backup.py\<close> lines 41-52. \<open>q_books\<close> is the answer to the query for all books,
  \<open>set_dirty\<close> what \<open>set_metadata_dirty\<close> raises for a book, \<open>commit\<close> what the commit raises.
\<close>

fun set_dirty_loop :: "(nat \<Rightarrow> exc option) \<Rightarrow> nat list \<Rightarrow> exc option" where
  "set_dirty_loop set_dirty [] = None"
| "set_dirty_loop set_dirty (b # bs) =
     (case set_dirty b of Some e \<Rightarrow> Some e | None \<Rightarrow> set_dirty_loop set_dirty bs)"

definition set_all_books_dirty :: "(exc + nat list) \<Rightarrow> (nat \<Rightarrow> exc option) \<Rightarrow> exc option \<Rightarrow> run_state \<Rightarrow> exc option \<times> run_state" where
  "set_all_books_dirty q_books set_dirty commit s =
     (let raised =
            (case q_books of
               Inl e \<Rightarrow> Some e
             | Inr books \<Rightarrow>
                 (case set_dirty_loop set_dirty books of
                    Some e \<Rightarrow> Some e
                  | None \<Rightarrow> commit));
          s1 = (case raised of
                  None \<Rightarrow> handleSuccess (emit Commit s)
                | Some ex \<Rightarrow>
                    emit Rollback
                      (handleError (''Error adding book for backup: '' @ exc_text ex)
                         (emit (Log (''Error adding book for backup: '' @ exc_text ex)) s)))
      in (None, emit Close s1))"

text \<open>\<open>metadata_backup.py\<close> lines 35-39.\<close>

record backup_env =
  be_set_dirty :: bool
  be_q_books :: "exc + nat list"
  be_mark_dirty :: "nat \<Rightarrow> exc option"
  be_commit :: "exc option"
  be_q_dirtied :: "exc + backup_step list"
  be_q_columns :: "exc option"

definition TaskBackupMetadata_run :: "backup_env \<Rightarrow> run_state \<Rightarrow> exc option \<times> run_state" where
  "TaskBackupMetadata_run env s =
     (if be_set_dirty env
      then set_all_books_dirty (be_q_books env) (be_mark_dirty env) (be_commit env) s
      else backup_metadata (be_q_dirtied env) (be_q_columns env) s)"

section \<open>The worker's task list\<close>

text \<open>
  An entry of \<open>WorkerThread.tasks\<close> is a 5-tuple. The loops of \<open>schedule.py\<close> and
  \<open>tasks_status.py\<close> unpack it as \<open>__, user, __, task, __\<close>: the second component is the
  owner (\<open>None\<close> for a system task), the fourth the task.
\<close>

type_synonym queue_entry = "nat \<times> string option \<times> int \<times> task \<times> bool"

definition entry_user :: "queue_entry \<Rightarrow> string option" where
  "entry_user e = (case e of (_, user, _, _, _) \<Rightarrow> user)"

definition entry_task :: "queue_entry \<Rightarrow> task" where
  "entry_task e = (case e of (_, _, _, t, _) \<Rightarrow> t)"

subsection \<open>\<open>end_scheduled_tasks\<close>\<close>

text \<open>
  \<open>schedule.py\<close> lines 55-59. \<open>worker.end_task\<close> belongs to \<open>services/worker.py\<close>, which is
  not among the sources: it is the parameter \<open>end_task\<close>, acting on a worker state \<open>'w\<close>.
\<close>

fun end_scheduled_tasks :: "(nat \<Rightarrow> 'w \<Rightarrow> 'w) \<Rightarrow> queue_entry list \<Rightarrow> 'w \<Rightarrow> 'w" where
  "end_scheduled_tasks end_task [] w = w"
| "end_scheduled_tasks end_task (e # rest) w =
     (if scheduled (entry_task e) \<and> truthy (is_cancellable (entry_task e))
      then end_scheduled_tasks end_task rest (end_task (task_id (entry_task e)) w)
      else end_scheduled_tasks end_task rest w)"

text \<open>
  Modelled from the spec: \<open>WorkerThread.end_task\<close> (the spec's \<open>cancel(task_id)\<close>). A task
  with this id that is cancellable and Waiting or Started becomes Cancelled; the time
  between the signal to a Started task and the task's observing it is not modelled. For
  any other task the call changes nothing.
\<close>

definition cancel_entry :: "nat \<Rightarrow> queue_entry \<Rightarrow> queue_entry" where
  "cancel_entry tid e =
     (case e of (num, user, added, t, hidden) \<Rightarrow>
        if task_id t = tid \<and> truthy (is_cancellable t)
           \<and> (stat t = STAT_WAITING \<or> stat t = STAT_STARTED)
        then (num, user, added, t\<lparr>stat := STAT_CANCELLED\<rparr>, hidden)
        else e)"

definition end_task :: "nat \<Rightarrow> queue_entry list \<Rightarrow> queue_entry list" where
  "end_task tid pool = map (cancel_entry tid) pool"

text \<open>The entries the sweep is meant for: scheduled and cancellable.\<close>

definition sweep_target :: "queue_entry \<Rightarrow> bool" where
  "sweep_target e = (scheduled (entry_task e) \<and> truthy (is_cancellable (entry_task e)))"

section \<open>Status reporting\<close>

text \<open>
  The functions of \<open>flask_babel\<close>, \<open>babel\<close> and \<open>markupsafe\<close> that \<open>tasks_status.py\<close> calls
  are libraries; they are parameters.
\<close>

record babel =
  gettext :: "string \<Rightarrow> string"
  format_datetime :: "int \<Rightarrow> string"
  format_unit :: "int \<Rightarrow> string"
  escape :: "string option \<Rightarrow> string"

record current_user =
  cu_name :: string
  cu_role_admin :: bool

text \<open>A \<open>timedelta\<close> in microseconds, with its normalised \<open>days\<close> and \<open>seconds\<close> fields.\<close>

definition td_days :: "int \<Rightarrow> int" where
  "td_days d = d div 86400000000"

definition td_seconds :: "int \<Rightarrow> int" where
  "td_seconds d = (d mod 86400000000) div 1000000"

text \<open>\<open>tasks_status.py\<close> lines 97-111.\<close>

definition format_runtime :: "(int \<Rightarrow> string) \<Rightarrow> int \<Rightarrow> string" where
  "format_runtime fmt_unit runtime =
     (let ret_val = (if td_days runtime \<noteq> 0 then fmt_unit (td_days runtime) @ '', '' else []);
          seconds = td_seconds runtime mod 60;
          minutes0 = td_seconds runtime div 60;
          minutes = minutes0 mod 60;
          hours = minutes0 div 60
      in if hours \<noteq> 0 then
           ret_val @ show_int hours @ '':'' @ pad_left CHR ''0'' 2 (show_int minutes)
             @ '':'' @ pad_left CHR ''0'' 2 (show_int seconds) @ ''s''
         else if minutes \<noteq> 0 then
           ret_val @ pad_left CHR '' '' 2 (show_int minutes)
             @ '':'' @ pad_left CHR ''0'' 2 (show_int seconds) @ ''s''
         else ret_val @ pad_left CHR '' '' 2 (show_int seconds) @ ''s'')"

text \<open>
  Modelled from the spec: the property \<open>CalibreTask.runtime\<close> of \<open>services/worker.py\<close>,
  \<open>end_time - start_time\<close>, or \<open>now - start_time\<close> while the task has no end time.
\<close>

definition runtime :: "int \<Rightarrow> int \<Rightarrow> task \<Rightarrow> int" where
  "runtime now started t = (case end_time t of Some e \<Rightarrow> e | None \<Rightarrow> now) - started"

text \<open>The dictionary \<open>ret\<close>; the keys set under a condition are optional.\<close>

record status_record =
  sr_starttime :: "string option"
  sr_runtime :: "string option"
  sr_status :: "string option"
  sr_taskMessage :: string
  sr_progress :: string
  sr_user :: string
  sr_task_id :: nat
  sr_stat :: stat
  sr_is_cancellable :: pyval

text \<open>\<open>tasks_status.py\<close> lines 66-81.\<close>

fun localize_status :: "babel \<Rightarrow> stat \<Rightarrow> string option" where
  "localize_status bb STAT_NOT_INT = None"
| "localize_status bb STAT_WAITING = Some (gettext bb ''Waiting'')"
| "localize_status bb STAT_FAIL = Some (gettext bb ''Failed'')"
| "localize_status bb STAT_STARTED = Some (gettext bb ''Started'')"
| "localize_status bb STAT_FINISH_SUCCESS = Some (gettext bb ''Finished'')"
| "localize_status bb STAT_ENDED = Some (gettext bb ''Ended'')"
| "localize_status bb STAT_CANCELLED = Some (gettext bb ''Cancelled'')"
| "localize_status bb STAT_OTHER = Some (gettext bb ''Unknown Status'')"

text \<open>\<open>tasks_status.py\<close> lines 60-90, the body of the \<open>if\<close>.\<close>

definition render_entry :: "babel \<Rightarrow> int \<Rightarrow> string option \<Rightarrow> task \<Rightarrow> status_record" where
  "render_entry bb now user t =
     \<lparr>sr_starttime = map_option (format_datetime bb) (start_time t),
      sr_runtime = map_option (\<lambda>started. format_runtime (format_unit bb) (runtime now started t))
                     (start_time t),
      sr_status = localize_status bb (stat t),
      sr_taskMessage = (if message t \<noteq> [] then name t @ '': '' @ message t else name t),
      sr_progress = show_int (py_int_of_float (fl64 (progress t * 100))) @ '' %'',
      sr_user = escape bb user,
      sr_task_id = task_id t,
      sr_stat = stat t,
      sr_is_cancellable = is_cancellable t\<rparr>"

text \<open>\<open>tasks_status.py\<close> lines 57-94; \<open>rendered\<close> is the list built by \<open>append\<close>.\<close>

fun render_loop :: "babel \<Rightarrow> int \<Rightarrow> current_user \<Rightarrow> queue_entry list \<Rightarrow> status_record list \<Rightarrow> status_record list" where
  "render_loop bb now cu [] rendered = rendered"
| "render_loop bb now cu (e # rest) rendered =
     (if entry_user e = Some (cu_name cu) \<or> cu_role_admin cu
      then render_loop bb now cu rest (rendered @ [render_entry bb now (entry_user e) (entry_task e)])
      else render_loop bb now cu rest rendered)"

definition render_task_status :: "babel \<Rightarrow> int \<Rightarrow> current_user \<Rightarrow> queue_entry list \<Rightarrow> status_record list" where
  "render_task_status bb now cu tasklist = render_loop bb now cu tasklist []"

section \<open>The scheduler\<close>

record config =
  schedule_start_time :: int
  schedule_duration :: int
  schedule_generate_book_covers :: bool
  schedule_generate_series_covers :: bool
  schedule_metadata_backup :: bool
  schedule_reconnect :: bool

text \<open>The task constructors that \<open>get_scheduled_tasks\<close> wraps in lambdas.\<close>

datatype task_ctor =
    NewTaskReconnectDatabase
  | NewTaskDeleteTempFolder
  | NewTaskBackupMetadata string
  | NewTaskClearCoverThumbnailCache int
  | NewTaskGenerateCoverThumbnails
  | NewTaskGenerateSeriesThumbnails

type_synonym sched_task = "task_ctor \<times> string \<times> bool"

text \<open>\<open>schedule.py\<close> lines 30-52.\<close>

definition get_scheduled_tasks :: "config \<Rightarrow> bool \<Rightarrow> sched_task list" where
  "get_scheduled_tasks cfg reconnect =
     (if reconnect then [(NewTaskReconnectDatabase, ''reconnect'', False)] else [])
     @ [(NewTaskDeleteTempFolder, ''delete temp'', True)]
     @ (if schedule_metadata_backup cfg
        then [(NewTaskBackupMetadata ''en'', ''backup metadata'', False)] else [])
     @ (if schedule_generate_book_covers cfg
        then [(NewTaskClearCoverThumbnailCache 0, ''delete superfluous book covers'', True),
              (NewTaskGenerateCoverThumbnails, ''generate book covers'', False)] else [])
     @ (if schedule_generate_series_covers cfg
        then [(NewTaskGenerateSeriesThumbnails, ''generate book covers'', False)] else [])"

text \<open>
  Modelled from the spec: \<open>BackgroundScheduler\<close> of \<open>services/background_scheduler.py\<close>,
  which is not among the sources. The scheduler holds the installed trigger jobs;
  \<open>remove_all_jobs\<close> (the spec's \<open>unregister_all\<close>) removes them all, \<open>schedule\<close> and
  \<open>schedule_tasks\<close> install jobs under a cron trigger, and \<open>schedule_tasks_immediately\<close>
  submits each task of the batch at once (a job that fires once, now).
\<close>

datatype trigger = CronTrigger int "int option" | RunNow

datatype job_func = SubmitTask task_ctor bool | EndScheduledTasks

record job =
  job_func :: job_func
  job_trigger :: trigger
  job_name :: string

definition remove_all_jobs :: "job list \<Rightarrow> job list" where
  "remove_all_jobs jobs = []"

definition schedule :: "job_func \<Rightarrow> trigger \<Rightarrow> string \<Rightarrow> job list \<Rightarrow> job list" where
  "schedule f trg nm jobs = jobs @ [\<lparr>job_func = f, job_trigger = trg, job_name = nm\<rparr>]"

definition task_job :: "trigger \<Rightarrow> sched_task \<Rightarrow> job" where
  "task_job trg t =
     (case t of (ctor, nm, hidden) \<Rightarrow>
        \<lparr>job_func = SubmitTask ctor hidden, job_trigger = trg, job_name = nm\<rparr>)"

definition schedule_tasks :: "sched_task list \<Rightarrow> trigger \<Rightarrow> job list \<Rightarrow> job list" where
  "schedule_tasks tasks trg jobs = jobs @ map (task_job trg) tasks"

definition schedule_tasks_immediately :: "sched_task list \<Rightarrow> job list \<Rightarrow> job list" where
  "schedule_tasks_immediately tasks jobs = jobs @ map (task_job RunNow) tasks"

subsection \<open>Wall-clock time\<close>

text \<open>
  A \<open>datetime\<close>: the day (as a day number) and the microsecond of the day. \<open>dt_abs\<close> is the
  position on the time line, by which datetimes are compared.
\<close>

record datetime =
  dt_day :: int
  dt_us :: int

definition dt_abs :: "datetime \<Rightarrow> int" where
  "dt_abs d = dt_day d * 86400000000 + dt_us d"

definition dt_of_abs :: "int \<Rightarrow> datetime" where
  "dt_of_abs a = \<lparr>dt_day = a div 86400000000, dt_us = a mod 86400000000\<rparr>"

definition dt_hour :: "datetime \<Rightarrow> int" where
  "dt_hour d = dt_us d div 3600000000"

definition dt_minute :: "datetime \<Rightarrow> int" where
  "dt_minute d = (dt_us d div 60000000) mod 60"

text \<open>\<open>timedelta(hours=duration // 60, minutes=duration % 60)\<close>, in microseconds.\<close>

definition duration_delta :: "int \<Rightarrow> int" where
  "duration_delta duration = (duration div 60) * 3600000000 + (duration mod 60) * 60000000"

text \<open>
  \<open>d.replace(hour=start, minute=0, second=0, microsecond=0)\<close> and
  \<open>d.replace(hour=start, minute=0)\<close>; \<open>replace\<close> raises \<open>ValueError\<close> for an hour outside
  0..23.
\<close>

definition replace_hour_exact :: "datetime \<Rightarrow> int \<Rightarrow> exc + datetime" where
  "replace_hour_exact d start =
     (if 0 \<le> start \<and> start \<le> 23
      then Inr \<lparr>dt_day = dt_day d, dt_us = start * 3600000000\<rparr>
      else Inl (ValueError ''hour must be in 0..23''))"

definition replace_hour_minute :: "datetime \<Rightarrow> int \<Rightarrow> exc + datetime" where
  "replace_hour_minute d start =
     (if 0 \<le> start \<and> start \<le> 23
      then Inr \<lparr>dt_day = dt_day d, dt_us = start * 3600000000 + dt_us d mod 60000000\<rparr>
      else Inl (ValueError ''hour must be in 0..23''))"

text \<open>
  \<open>schedule.py\<close> lines 98-102. The function reads the clock twice: \<open>now\<close> is the first
  reading, \<open>now2\<close> the second, from which \<open>start_time\<close> is built.
\<close>

definition should_task_be_running :: "int \<Rightarrow> int \<Rightarrow> datetime \<Rightarrow> datetime \<Rightarrow> exc + bool" where
  "should_task_be_running start duration now now2 =
     bind_exc (replace_hour_exact now2 start) (\<lambda>start_t.
       let end_t = dt_of_abs (dt_abs start_t + duration_delta duration)
       in Inr (dt_abs start_t < dt_abs now \<and> dt_abs now < dt_abs end_t))"

text \<open>\<open>schedule.py\<close> lines 105-107.\<close>

definition calclulate_end_time :: "int \<Rightarrow> int \<Rightarrow> datetime \<Rightarrow> exc + datetime" where
  "calclulate_end_time start duration now =
     bind_exc (replace_hour_minute now start) (\<lambda>start_t.
       Inr (dt_of_abs (dt_abs start_t + duration_delta duration)))"

text \<open>
  \<open>schedule.py\<close> lines 62-80. The scheduler is \<open>None\<close> when \<open>BackgroundScheduler()\<close> is false
  (no scheduling library). \<open>clock0\<close>, \<open>clock1\<close> and \<open>clock2\<close> are the three readings of the
  clock, in the order the function takes them. The result is the exception raised, if any,
  and the scheduler as the function leaves it.
\<close>

definition register_scheduled_tasks :: "config \<Rightarrow> bool \<Rightarrow> datetime \<Rightarrow> datetime \<Rightarrow> datetime \<Rightarrow> job list option \<Rightarrow> exc option \<times> job list option" where
  "register_scheduled_tasks cfg reconnect clock0 clock1 clock2 scheduler =
     (case scheduler of
        None \<Rightarrow> (None, None)
      | Some jobs \<Rightarrow>
          let jobs1 = remove_all_jobs jobs;
              start = schedule_start_time cfg;
              duration = schedule_duration cfg;
              jobs2 = schedule_tasks (get_scheduled_tasks cfg reconnect) (CronTrigger start None) jobs1
          in (case calclulate_end_time start duration clock0 of
                Inl e \<Rightarrow> (Some e, Some jobs2)
              | Inr end_t \<Rightarrow>
                  let jobs3 = schedule EndScheduledTasks
                                (CronTrigger (dt_hour end_t) (Some (dt_minute end_t)))
                                ''end scheduled task'' jobs2
                  in (case should_task_be_running start duration clock1 clock2 of
                        Inl e \<Rightarrow> (Some e, Some jobs3)
                      | Inr running \<Rightarrow>
                          (None,
                           Some (if running
                                 then schedule_tasks_immediately (get_scheduled_tasks cfg reconnect) jobs3
                                 else jobs3)))))"

text \<open>
  The window in the words of the specification: the current time lies in the closed
  interval from the start hour of the day to the start hour plus the duration.
\<close>

definition in_window_closed :: "int \<Rightarrow> int \<Rightarrow> datetime \<Rightarrow> bool" where
  "in_window_closed start duration now =
     (dt_day now * 86400000000 + start * 3600000000 \<le> dt_abs now
      \<and> dt_abs now \<le> dt_day now * 86400000000 + start * 3600000000 + duration * 60000000)"

definition run_now_jobs :: "job list \<Rightarrow> job list" where
  "run_now_jobs jobs = filter (\<lambda>j. job_trigger j = RunNow) jobs"

section \<open>The admin handler \<open>update_scheduledtasks\<close>\<close>

text \<open>
  The names bound at module level of \<open>admin.py\<close> by its imports and assignments (lines
  22-105); the module's own functions add their names, none of which is \<open>config\<close>. A
  global name that is not bound raises \<open>NameError\<close> when it is evaluated.
\<close>

definition admin_globals :: "string list" where
  "admin_globals =
     [''contextlib'', ''json'', ''operator'', ''os'', ''re'', ''string'', ''sys'', ''time'',
      ''datetime'', ''timedelta'', ''datetime_time'', ''wraps'', ''Blueprint'', ''Response'',
      ''abort'', ''flash'', ''g'', ''make_response'', ''redirect'', ''request'',
      ''send_from_directory'', ''url_for'', ''flask_session'', ''format_datetime'',
      ''format_time'', ''format_timedelta'', ''get_locale'', ''_'', ''current_user'',
      ''login_required'', ''logout_user'', ''Markup'', ''and_'', ''IntegrityError'',
      ''InvalidRequestError'', ''OperationalError'', ''flag_modified'', ''func'', ''or_'',
      ''text'', ''constants'', ''db'', ''debug_info'', ''helper'', ''kobo_sync_status'',
      ''logger'', ''schedule'', ''services'', ''ub'', ''updater_thread'', ''web_server'',
      ''cli_param'', ''calibre_db'', ''get_available_locale'', ''get_available_translations'',
      ''get_user_locale_language'', ''CONFIG'', ''check_email'', ''check_username'',
      ''check_valid_domain'', ''generate_password_hash'', ''get_calibre_binarypath'',
      ''reset_password'', ''send_test_mail'', ''valid_email'', ''get_sidebar_config'',
      ''render_title_template'', ''use_APScheduler'', ''WorkerThread'', ''log'',
      ''feature_support'', ''rarfile'', ''oauth_check'', ''oauthblueprints'', ''err'',
      ''admi'']"

definition py_global :: "string list \<Rightarrow> string \<Rightarrow> exc + unit" where
  "py_global bound nm =
     (if nm \<in> set bound then Inr () else Inl (NameError (''name '' @ nm @ '' is not defined'')))"

text \<open>
  The submitted form. \<open>f_start\<close> and \<open>f_duration\<close> are the values of
  \<open>int(to_save.get(...))\<close>, \<open>None\<close> when \<open>int\<close> raises (the field is absent or not a number);
  the four check boxes are the values \<open>_config_checkbox\<close> stores.
\<close>

record form =
  f_start :: "int option"
  f_duration :: "int option"
  f_book_covers :: bool
  f_series_covers :: bool
  f_metadata_backup :: bool
  f_reconnect :: bool

text \<open>
  What the handler acts on: \<open>CONFIG\<close> in memory, what \<open>CONFIG.save()\<close> has written during
  the request, the flashed messages with their categories, the task ids passed to
  \<open>worker.end_task\<close>, the scheduler, and whether \<open>ub.session.rollback()\<close> ran.
\<close>

record admin_state =
  as_config :: config
  as_saved :: "config option"
  as_flashes :: "(string \<times> string) list"
  as_end_requests :: "nat list"
  as_scheduler :: "job list option"
  as_rolled_back :: bool

definition flash :: "string \<Rightarrow> string \<Rightarrow> admin_state \<Rightarrow> admin_state" where
  "flash msg category s = s\<lparr>as_flashes := as_flashes s @ [(msg, category)]\<rparr>"

text \<open>\<open>admin.py\<close> lines 1268-1281: the two range checks and the four check boxes.\<close>

definition check_start :: "int \<Rightarrow> bool \<times> admin_state \<Rightarrow> bool \<times> admin_state" where
  "check_start v es =
     (case es of (error, s) \<Rightarrow>
        if 0 \<le> v \<and> v \<le> 23
        then (error, s\<lparr>as_config := (as_config s)\<lparr>schedule_start_time := v\<rparr>\<rparr>)
        else (True, flash ''Invalid start time for task specified'' ''error'' s))"

definition check_duration :: "int \<Rightarrow> bool \<times> admin_state \<Rightarrow> bool \<times> admin_state" where
  "check_duration v es =
     (case es of (error, s) \<Rightarrow>
        if 0 < v \<and> v \<le> 60
        then (error, s\<lparr>as_config := (as_config s)\<lparr>schedule_duration := v\<rparr>\<rparr>)
        else (True, flash ''Invalid duration for task specified'' ''error'' s))"

definition set_checkboxes :: "form \<Rightarrow> admin_state \<Rightarrow> admin_state" where
  "set_checkboxes f s =
     s\<lparr>as_config := (as_config s)
          \<lparr>schedule_generate_book_covers := f_book_covers f,
           schedule_generate_series_covers := f_series_covers f,
           schedule_metadata_backup := f_metadata_backup f,
           schedule_reconnect := f_reconnect f\<rparr>\<rparr>"

text \<open>
  \<open>admin.py\<close> lines 1285-1292, the body of the \<open>try\<close>. \<open>save_result\<close> is what
  \<open>CONFIG.save()\<close> raises, \<open>worker_tasks\<close> the worker's task list. The argument
  \<open>config.schedule_reconnect\<close> of line 1292 is evaluated before \<open>register_scheduled_tasks\<close>
  is called.
\<close>

definition save_and_reregister :: "exc option \<Rightarrow> queue_entry list \<Rightarrow> datetime \<Rightarrow> datetime \<Rightarrow> datetime \<Rightarrow> admin_state \<Rightarrow> exc option \<times> admin_state" where
  "save_and_reregister save_result worker_tasks clock0 clock1 clock2 s =
     (case save_result of
        Some e \<Rightarrow> (Some e, s)
      | None \<Rightarrow>
          let s1 = flash ''Scheduled tasks settings updated'' ''success''
                     (s\<lparr>as_saved := Some (as_config s)\<rparr>);
              s2 = s1\<lparr>as_end_requests :=
                        end_scheduled_tasks (\<lambda>tid reqs. reqs @ [tid]) worker_tasks
                          (as_end_requests s1)\<rparr>
          in (case py_global admin_globals ''config'' of
                Inl e \<Rightarrow> (Some e, s2)
              | Inr u \<Rightarrow>
                  (case register_scheduled_tasks (as_config s2) (schedule_reconnect (as_config s2))
                          clock0 clock1 clock2 (as_scheduler s2) of
                     (r, sched) \<Rightarrow> (r, s2\<lparr>as_scheduler := sched\<rparr>))))"

text \<open>\<open>admin.py\<close> lines 1293-1300: the two \<open>except\<close> clauses; any other exception leaves.\<close>

fun save_except :: "exc \<Rightarrow> admin_state \<Rightarrow> exc option \<times> admin_state" where
  "save_except (IntegrityError m) s =
     (None, flash ''Oops! An unknown error occurred. Please try again later.'' ''error''
              (s\<lparr>as_rolled_back := True\<rparr>))"
| "save_except (OperationalError m) s =
     (None, flash ''Settings DB is not Writeable'' ''error'' (s\<lparr>as_rolled_back := True\<rparr>))"
| "save_except e s = (Some e, s)"

text \<open>
  \<open>admin.py\<close> lines 1262-1302. The result is the exception that leaves the handler, if any,
  and the state the handler leaves behind.
\<close>

definition update_scheduledtasks :: "form \<Rightarrow> exc option \<Rightarrow> queue_entry list \<Rightarrow> datetime \<Rightarrow> datetime \<Rightarrow> datetime \<Rightarrow> admin_state \<Rightarrow> exc option \<times> admin_state" where
  "update_scheduledtasks f save_result worker_tasks clock0 clock1 clock2 s =
     (case f_start f of
        None \<Rightarrow> (Some (TypeError ''int() argument must be a string or a number''), s)
      | Some start \<Rightarrow>
          (case check_start start (False, s) of (error1, s1) \<Rightarrow>
             (case f_duration f of
                None \<Rightarrow> (Some (TypeError ''int() argument must be a string or a number''), s1)
              | Some duration \<Rightarrow>
                  (case check_duration duration (error1, s1) of (error, s2) \<Rightarrow>
                     let s3 = set_checkboxes f s2 in
                     if \<not> error then
                       (case save_and_reregister save_result worker_tasks clock0 clock1 clock2 s3 of
                          (None, s4) \<Rightarrow> (None, s4)
                        | (Some e, s4) \<Rightarrow> save_except e s4)
                     else (None, s3)))))"

text \<open>An entry with its task marked Cancelled.\<close>

definition set_cancelled :: "queue_entry \<Rightarrow> queue_entry" where
  "set_cancelled e =
     (case e of (num, user, added, t, hidden) \<Rightarrow> (num, user, added, t\<lparr>stat := STAT_CANCELLED\<rparr>, hidden))"

text \<open>A task as the worker holds it, for concrete examples.\<close>

definition demo_task :: "nat \<Rightarrow> stat \<Rightarrow> bool \<Rightarrow> bool \<Rightarrow> task" where
  "demo_task n st canc sched =
     (CalibreTask_init n ''Metadata backup'' ''Backing up Metadata'' (PyBool canc))
       \<lparr>stat := st, scheduled := sched\<rparr>"

text \<open>Localisation functions for concrete examples.\<close>

definition demo_babel :: babel where
  "demo_babel =
     \<lparr>gettext = (\<lambda>s. s), format_datetime = show_int,
      format_unit = (\<lambda>d. show_int d @ '' days''),
      escape = (\<lambda>u. case u of None \<Rightarrow> ''None'' | Some s \<Rightarrow> s)\<rparr>"

text \<open>A configuration for concrete examples: the window starts at 3 o'clock and lasts 10 minutes.\<close>

definition demo_config :: config where
  "demo_config =
     \<lparr>schedule_start_time = 3, schedule_duration = 10, schedule_generate_book_covers = False,
      schedule_generate_series_covers = False, schedule_metadata_backup = True,
      schedule_reconnect = False\<rparr>"

text \<open>A state of the admin handler and a submitted form, for concrete examples.\<close>

definition demo_admin_state :: admin_state where
  "demo_admin_state =
     \<lparr>as_config = demo_config, as_saved = None, as_flashes = [], as_end_requests = [],
      as_scheduler = Some [\<lparr>job_func = EndScheduledTasks, job_trigger = CronTrigger 3 (Some 10),
                              job_name = ''end scheduled task''\<rparr>],
      as_rolled_back = False\<rparr>"

definition demo_form :: "int \<Rightarrow> int \<Rightarrow> form" where
  "demo_form start duration =
     \<lparr>f_start = Some start, f_duration = Some duration, f_book_covers = False,
      f_series_covers = False, f_metadata_backup = True, f_reconnect = True\<rparr>"

(*DEFS_END*)

section \<open>Properties of the task variants\<close>

lemma emit_trace [simp]: "rs_trace (emit e s) = rs_trace s @ [e]"
  by (simp add: emit_def)

lemma emit_task [simp]: "rs_task (emit e s) = rs_task s"
  by (simp add: emit_def)

lemma handleSuccess_trace [simp]: "rs_trace (handleSuccess s) = rs_trace s @ [HandleSuccess]"
  by (simp add: handleSuccess_def)

lemma handleSuccess_stat [simp]: "stat (rs_task (handleSuccess s)) = STAT_FINISH_SUCCESS"
  by (simp add: handleSuccess_def)

lemma handleSuccess_progress [simp]: "progress (rs_task (handleSuccess s)) = 1"
  by (simp add: handleSuccess_def)

text \<open>
  C7. Reading \<open>is_cancellable\<close> on an upload-marker task does not yield the boolean
  \<open>False\<close>: \<open>upload.py\<close> defines it without \<open>@property\<close>, so the read yields the bound
  method, which counts as true wherever it is used as a condition. The delete-temp-folder
  and metadata-backup variants, which use \<open>@property\<close>, yield \<open>False\<close> and \<open>True\<close>.
\<close>

theorem TaskUpload_is_cancellable_reads_method:
  "read_is_cancellable TaskUpload = PyBoundMethod (PyBool False)
   \<and> read_is_cancellable TaskUpload \<noteq> PyBool False
   \<and> truthy (read_is_cancellable TaskUpload)
   \<and> read_is_cancellable TaskDeleteTempFolder = PyBool False
   \<and> read_is_cancellable TaskBackupMetadata = PyBool True"
  by (simp add: read_is_cancellable_def)

text \<open>
  C8. Constructing an upload-marker task always raises: after the base initialiser and the
  two time stamps, the assignment \<open>super().stat = STAT_FINISH_SUCCESS\<close> of line 28 raises
  \<open>AttributeError\<close>, for every identifier, clock reading, task message and book title. No
  task with \<open>stat = STAT_FINISH_SUCCESS\<close> and \<open>progress = 1\<close> is produced.
\<close>

theorem TaskUpload_init_raises:
  "TaskUpload_init fresh_id now task_message book_title =
     Inl (AttributeError ''super object has no attribute stat'')"
  by (simp add: TaskUpload_init_def)

theorem TaskUpload_init_raises_witness:
  "TaskUpload_init 7 1000 ''Upload done'' ''Dune'' =
     Inl (AttributeError ''super object has no attribute stat'')"
  using TaskUpload_init_raises [of 7 1000 "''Upload done''" "''Dune''"] by simp

text \<open>
  C9. \<open>TaskDeleteTempFolder.run\<close> returns normally whatever \<open>shutil.rmtree\<close> meets: a
  missing directory leaves no trace, a permission or other OS error leaves one log line,
  and in every case the last thing \<open>run\<close> does is \<open>_handleSuccess\<close>, so the task ends in
  the success state and never in Fail.
\<close>

theorem TaskDeleteTempFolder_run_succeeds:
  "\<exists>d' s'. TaskDeleteTempFolder_run d s = Inr (d', s')
     \<and> stat (rs_task s') = STAT_FINISH_SUCCESS
     \<and> stat (rs_task s') \<noteq> STAT_FAIL
     \<and> rs_trace s' = rs_trace s @
          (case d of
             Missing \<Rightarrow> []
           | Removable \<Rightarrow> []
           | NotPermitted \<Rightarrow> [Log ''Error deleting temp folder: Permission denied'']
           | Unremovable \<Rightarrow> [Log ''Error deleting temp folder: Directory not empty''])
          @ [HandleSuccess]"
  by (cases d) (simp_all add: TaskDeleteTempFolder_run_def)

theorem TaskDeleteTempFolder_run_succeeds_witness:
  "\<exists>d' s'. TaskDeleteTempFolder_run NotPermitted
       \<lparr>rs_task = CalibreTask_init 1 ''Delete Temp Folder'' ''Delete temp folder contents''
                    (read_is_cancellable TaskDeleteTempFolder),
        rs_trace = []\<rparr> = Inr (d', s')
     \<and> stat (rs_task s') = STAT_FINISH_SUCCESS
     \<and> rs_trace s' = [Log ''Error deleting temp folder: Permission denied'', HandleSuccess]"
  using TaskDeleteTempFolder_run_succeeds [of NotPermitted
      "\<lparr>rs_task = CalibreTask_init 1 ''Delete Temp Folder'' ''Delete temp folder contents''
                    (read_is_cancellable TaskDeleteTempFolder),
        rs_trace = []\<rparr>"]
  by auto

section \<open>The sweep and the status list\<close>

lemma end_scheduled_tasks_fold:
  "end_scheduled_tasks f es w = fold f (map (\<lambda>e. task_id (entry_task e)) (filter sweep_target es)) w"
  by (induction es arbitrary: w) (simp_all add: sweep_target_def)

lemma cancel_entry_cases:
  "cancel_entry tid e =
     (if task_id (entry_task e) = tid \<and> truthy (is_cancellable (entry_task e))
         \<and> (stat (entry_task e) = STAT_WAITING \<or> stat (entry_task e) = STAT_STARTED)
      then set_cancelled e else e)"
  by (cases e) (auto simp add: cancel_entry_def set_cancelled_def entry_task_def)

lemma entry_task_set_cancelled:
  "entry_task (set_cancelled e) = (entry_task e)\<lparr>stat := STAT_CANCELLED\<rparr>"
  by (cases e) (simp add: set_cancelled_def entry_task_def)

lemma cancel_entry_set_cancelled [simp]: "cancel_entry tid (set_cancelled e) = set_cancelled e"
  by (simp add: cancel_entry_cases entry_task_set_cancelled)

lemma fold_cancel_set_cancelled [simp]: "fold cancel_entry ids (set_cancelled e) = set_cancelled e"
  by (induction ids) simp_all

lemma fold_cancel_entry:
  "fold cancel_entry ids e =
     (if task_id (entry_task e) \<in> set ids \<and> truthy (is_cancellable (entry_task e))
         \<and> (stat (entry_task e) = STAT_WAITING \<or> stat (entry_task e) = STAT_STARTED)
      then set_cancelled e else e)"
proof (induction ids)
  case Nil
  then show ?case by simp
next
  case (Cons a ids)
  show ?case
  proof (cases "cancel_entry a e = e")
    case True
    then show ?thesis using Cons by (auto simp add: cancel_entry_cases split: if_splits)
  next
    case False
    then have "cancel_entry a e = set_cancelled e" by (simp add: cancel_entry_cases split: if_splits)
    moreover from False have "task_id (entry_task e) = a \<and> truthy (is_cancellable (entry_task e))
         \<and> (stat (entry_task e) = STAT_WAITING \<or> stat (entry_task e) = STAT_STARTED)"
      by (simp add: cancel_entry_cases split: if_splits)
    ultimately show ?thesis by simp
  qed
qed

lemma fold_end_task: "fold end_task ids pool = map (fold cancel_entry ids) pool"
  by (induction ids arbitrary: pool) (simp_all add: end_task_def)

lemma sweep_id_mem:
  assumes "distinct (map (\<lambda>e. task_id (entry_task e)) es)" "e \<in> set es"
  shows "task_id (entry_task e) \<in> set (map (\<lambda>e. task_id (entry_task e)) (filter sweep_target es))
         \<longleftrightarrow> sweep_target e"
proof
  assume "task_id (entry_task e) \<in> set (map (\<lambda>e. task_id (entry_task e)) (filter sweep_target es))"
  then obtain e' where e': "e' \<in> set es" "sweep_target e'" "task_id (entry_task e') = task_id (entry_task e)"
    by auto
  from assms(1) have "inj_on (\<lambda>e. task_id (entry_task e)) (set es)" by (simp add: distinct_map)
  with e' assms(2) have "e' = e" by (auto dest: inj_onD)
  with e' show "sweep_target e" by simp
next
  assume "sweep_target e"
  with assms(2) show "task_id (entry_task e) \<in> set (map (\<lambda>e. task_id (entry_task e)) (filter sweep_target es))"
    by auto
qed

text \<open>
  C1. The end-of-window sweep passes to \<open>worker.end_task\<close> the ids of exactly the entries
  whose task is scheduled and cancellable, in list order, and nothing else. With \<open>end_task\<close>
  as the specification describes it and task ids unique, the sweep leaves the task list as
  it was except that every scheduled, cancellable task that was Waiting or Started is
  Cancelled: a task lacking either flag, such as a scheduled task that is not cancellable,
  is untouched.
\<close>

theorem end_scheduled_tasks_sweeps_exactly:
  "end_scheduled_tasks request es w =
     fold request (map (\<lambda>e. task_id (entry_task e)) (filter sweep_target es)) w
   \<and> (distinct (map (\<lambda>e. task_id (entry_task e)) es) \<longrightarrow>
        end_scheduled_tasks end_task es es =
          map (\<lambda>e. if sweep_target e
                       \<and> (stat (entry_task e) = STAT_WAITING \<or> stat (entry_task e) = STAT_STARTED)
                    then set_cancelled e else e) es)"
proof (intro conjI impI)
  show "end_scheduled_tasks request es w =
     fold request (map (\<lambda>e. task_id (entry_task e)) (filter sweep_target es)) w"
    by (rule end_scheduled_tasks_fold)
next
  assume d: "distinct (map (\<lambda>e. task_id (entry_task e)) es)"
  have "end_scheduled_tasks end_task es es =
          map (fold cancel_entry (map (\<lambda>e. task_id (entry_task e)) (filter sweep_target es))) es"
    by (simp only: end_scheduled_tasks_fold fold_end_task)
  also have "\<dots> = map (\<lambda>e. if sweep_target e
                       \<and> (stat (entry_task e) = STAT_WAITING \<or> stat (entry_task e) = STAT_STARTED)
                    then set_cancelled e else e) es"
  proof (rule map_cong[OF refl])
    fix e assume "e \<in> set es"
    from sweep_id_mem[OF d this] show "fold cancel_entry (map (\<lambda>e. task_id (entry_task e)) (filter sweep_target es)) e =
        (if sweep_target e \<and> (stat (entry_task e) = STAT_WAITING \<or> stat (entry_task e) = STAT_STARTED)
         then set_cancelled e else e)"
      unfolding fold_cancel_entry by (auto simp add: sweep_target_def)
  qed
  finally show "end_scheduled_tasks end_task es es =
          map (\<lambda>e. if sweep_target e
                       \<and> (stat (entry_task e) = STAT_WAITING \<or> stat (entry_task e) = STAT_STARTED)
                    then set_cancelled e else e) es" .
qed

theorem end_scheduled_tasks_sweeps_exactly_witness:
  "end_scheduled_tasks (\<lambda>tid reqs. reqs @ [tid])
     [(1, None, 0, demo_task 1 STAT_STARTED True True, False),
      (2, None, 0, demo_task 2 STAT_STARTED False True, False),
      (3, Some ''alice'', 0, demo_task 3 STAT_WAITING True False, False)] [] = [1]
   \<and> end_scheduled_tasks end_task
     [(1, None, 0, demo_task 1 STAT_STARTED True True, False),
      (2, None, 0, demo_task 2 STAT_STARTED False True, False),
      (3, Some ''alice'', 0, demo_task 3 STAT_WAITING True False, False)]
     [(1, None, 0, demo_task 1 STAT_STARTED True True, False),
      (2, None, 0, demo_task 2 STAT_STARTED False True, False),
      (3, Some ''alice'', 0, demo_task 3 STAT_WAITING True False, False)] =
     [(1, None, 0, demo_task 1 STAT_CANCELLED True True, False),
      (2, None, 0, demo_task 2 STAT_STARTED False True, False),
      (3, Some ''alice'', 0, demo_task 3 STAT_WAITING True False, False)]"
  using end_scheduled_tasks_sweeps_exactly [of "\<lambda>tid reqs. reqs @ [tid]"
     "[(1, None, 0, demo_task 1 STAT_STARTED True True, False),
      (2, None, 0, demo_task 2 STAT_STARTED False True, False),
      (3, Some ''alice'', 0, demo_task 3 STAT_WAITING True False, False)]" "[]"]
  by (simp add: sweep_target_def entry_task_def demo_task_def CalibreTask_init_def set_cancelled_def)

lemma render_loop_filter:
  "render_loop bb now cu es acc =
     acc @ map (\<lambda>e. render_entry bb now (entry_user e) (entry_task e))
             (filter (\<lambda>e. entry_user e = Some (cu_name cu) \<or> cu_role_admin cu) es)"
  by (induction es arbitrary: acc) simp_all

text \<open>
  C2. \<open>render_task_status\<close> produces one status record for each entry whose owner is the
  requesting user's name or whose requester is an admin, in list order, and no other
  record. For a user who is not an admin the records are those of the user's own entries;
  for an admin they are the records of all entries.
\<close>

theorem render_task_status_filters_by_owner:
  "render_task_status bb now cu tasklist =
     map (\<lambda>e. render_entry bb now (entry_user e) (entry_task e))
       (filter (\<lambda>e. entry_user e = Some (cu_name cu) \<or> cu_role_admin cu) tasklist)
   \<and> (\<not> cu_role_admin cu \<longrightarrow>
        render_task_status bb now cu tasklist =
          map (\<lambda>e. render_entry bb now (entry_user e) (entry_task e))
            (filter (\<lambda>e. entry_user e = Some (cu_name cu)) tasklist))
   \<and> (cu_role_admin cu \<longrightarrow>
        render_task_status bb now cu tasklist =
          map (\<lambda>e. render_entry bb now (entry_user e) (entry_task e)) tasklist)"
  by (simp add: render_task_status_def render_loop_filter)

theorem render_task_status_filters_by_owner_witness:
  "map sr_task_id (render_task_status demo_babel 0 \<lparr>cu_name = ''alice'', cu_role_admin = False\<rparr>
     [(1, None, 0, demo_task 1 STAT_STARTED True True, False),
      (2, Some ''bob'', 0, demo_task 2 STAT_STARTED False False, False),
      (3, Some ''alice'', 0, demo_task 3 STAT_WAITING True False, False)]) = [3]
   \<and> map sr_task_id (render_task_status demo_babel 0 \<lparr>cu_name = ''alice'', cu_role_admin = True\<rparr>
     [(1, None, 0, demo_task 1 STAT_STARTED True True, False),
      (2, Some ''bob'', 0, demo_task 2 STAT_STARTED False False, False),
      (3, Some ''alice'', 0, demo_task 3 STAT_WAITING True False, False)]) = [1, 2, 3]"
  using render_task_status_filters_by_owner [of demo_babel 0 "\<lparr>cu_name = ''alice'', cu_role_admin = False\<rparr>"
     "[(1, None, 0, demo_task 1 STAT_STARTED True True, False),
      (2, Some ''bob'', 0, demo_task 2 STAT_STARTED False False, False),
      (3, Some ''alice'', 0, demo_task 3 STAT_WAITING True False, False)]"]
    render_task_status_filters_by_owner [of demo_babel 0 "\<lparr>cu_name = ''alice'', cu_role_admin = True\<rparr>"
     "[(1, None, 0, demo_task 1 STAT_STARTED True True, False),
      (2, Some ''bob'', 0, demo_task 2 STAT_STARTED False False, False),
      (3, Some ''alice'', 0, demo_task 3 STAT_WAITING True False, False)]"]
  by (simp add: entry_user_def entry_task_def render_entry_def demo_task_def CalibreTask_init_def)

section \<open>Registration of the scheduled tasks\<close>

lemma duration_delta_eq: "duration_delta d = d * 60000000"
  unfolding duration_delta_def by presburger

lemma dt_abs_record [simp]: "dt_abs \<lparr>dt_day = a, dt_us = b\<rparr> = a * 86400000000 + b"
  by (simp add: dt_abs_def)

lemma dt_abs_of_abs [simp]: "dt_abs (dt_of_abs a) = a"
  by (simp add: dt_abs_def dt_of_abs_def)

lemma should_task_be_running_eq:
  assumes "0 \<le> start" "start \<le> 23"
  shows "should_task_be_running start duration now now2 =
           Inr (dt_day now2 * 86400000000 + start * 3600000000 < dt_abs now
                \<and> dt_abs now < dt_day now2 * 86400000000 + start * 3600000000 + duration * 60000000)"
  using assms
  by (simp add: should_task_be_running_def replace_hour_exact_def duration_delta_eq Let_def)

lemma calclulate_end_time_ok:
  assumes "0 \<le> start" "start \<le> 23"
  shows "\<exists>e. calclulate_end_time start duration now = Inr e"
  using assms by (simp add: calclulate_end_time_def replace_hour_minute_def)

lemma job_trigger_task_job [simp]: "job_trigger (task_job trg t) = trg"
  by (cases t) (simp add: task_job_def)

lemma run_now_jobs_append [simp]: "run_now_jobs (xs @ ys) = run_now_jobs xs @ run_now_jobs ys"
  by (simp add: run_now_jobs_def)

lemma run_now_jobs_Cons [simp]:
  "run_now_jobs (j # js) = (if job_trigger j = RunNow then j # run_now_jobs js else run_now_jobs js)"
  by (simp add: run_now_jobs_def)

lemma run_now_jobs_Nil [simp]: "run_now_jobs [] = []"
  by (simp add: run_now_jobs_def)

lemma run_now_jobs_cron [simp]: "run_now_jobs (map (task_job (CronTrigger h m)) ts) = []"
  by (simp add: run_now_jobs_def)

lemma run_now_jobs_now [simp]: "run_now_jobs (map (task_job RunNow) ts) = map (task_job RunNow) ts"
  by (simp add: run_now_jobs_def)

lemma register_run_now:
  assumes "0 \<le> schedule_start_time cfg" "schedule_start_time cfg \<le> 23"
  shows "\<exists>js. register_scheduled_tasks cfg reconnect clock0 clock1 clock2 (Some jobs) = (None, Some js)
     \<and> run_now_jobs js =
         (if dt_day clock2 * 86400000000 + schedule_start_time cfg * 3600000000 < dt_abs clock1
             \<and> dt_abs clock1 < dt_day clock2 * 86400000000 + schedule_start_time cfg * 3600000000
                                 + schedule_duration cfg * 60000000
          then map (task_job RunNow) (get_scheduled_tasks cfg reconnect) else [])"
proof -
  obtain e where e: "calclulate_end_time (schedule_start_time cfg) (schedule_duration cfg) clock0 = Inr e"
    using calclulate_end_time_ok[OF assms] by blast
  show ?thesis
    by (simp add: register_scheduled_tasks_def Let_def e should_task_be_running_eq[OF assms]
         remove_all_jobs_def schedule_tasks_def schedule_def schedule_tasks_immediately_def)
qed

lemma register_forgets_old_jobs:
  "register_scheduled_tasks cfg reconnect clock0 clock1 clock2 (Some jobs) =
   register_scheduled_tasks cfg reconnect clock0 clock1 clock2 (Some [])"
  by (simp add: register_scheduled_tasks_def remove_all_jobs_def)

text \<open>
  C4 (as amended). Without a scheduler \<open>register_scheduled_tasks\<close> does nothing. With a
  scheduler and a start hour in 0..23 it returns normally, and it submits the batch at once
  exactly when the current time lies strictly between the start hour of the day (the day
  of the clock reading from which \<open>start_time\<close> is built) and that instant plus the
  duration in minutes; otherwise nothing is submitted at once.
\<close>

theorem register_scheduled_tasks_kickoff:
  "register_scheduled_tasks cfg reconnect clock0 clock1 clock2 None = (None, None)
   \<and> (0 \<le> schedule_start_time cfg \<and> schedule_start_time cfg \<le> 23 \<longrightarrow>
        (\<exists>js. register_scheduled_tasks cfg reconnect clock0 clock1 clock2 (Some jobs) = (None, Some js)
           \<and> run_now_jobs js =
               (if dt_day clock2 * 86400000000 + schedule_start_time cfg * 3600000000 < dt_abs clock1
                   \<and> dt_abs clock1 < dt_day clock2 * 86400000000 + schedule_start_time cfg * 3600000000
                                       + schedule_duration cfg * 60000000
                then map (task_job RunNow) (get_scheduled_tasks cfg reconnect) else [])))"
  using register_run_now[of cfg reconnect clock0 clock1 clock2 jobs]
  by (simp add: register_scheduled_tasks_def)

theorem register_scheduled_tasks_kickoff_witness:
  "\<exists>js. register_scheduled_tasks demo_config False
          \<lparr>dt_day = 0, dt_us = 11100000000\<rparr> \<lparr>dt_day = 0, dt_us = 11100000000\<rparr>
          \<lparr>dt_day = 0, dt_us = 11100000000\<rparr> (Some []) = (None, Some js)
     \<and> run_now_jobs js =
          [\<lparr>job_func = SubmitTask NewTaskDeleteTempFolder True, job_trigger = RunNow,
            job_name = ''delete temp''\<rparr>,
           \<lparr>job_func = SubmitTask (NewTaskBackupMetadata ''en'') False, job_trigger = RunNow,
            job_name = ''backup metadata''\<rparr>]"
  using register_scheduled_tasks_kickoff [of demo_config False
          "\<lparr>dt_day = 0, dt_us = 11100000000\<rparr>" "\<lparr>dt_day = 0, dt_us = 11100000000\<rparr>"
          "\<lparr>dt_day = 0, dt_us = 11100000000\<rparr>" "[]"]
  by (simp add: demo_config_def get_scheduled_tasks_def task_job_def)

text \<open>
  The claim as stated fails at the boundary of the window: at exactly 3 o'clock, with a
  window from 3:00 to 3:10, the time lies in the closed window but nothing is submitted.
\<close>

theorem register_scheduled_tasks_boundary_counterexample:
  "in_window_closed 3 10 \<lparr>dt_day = 0, dt_us = 10800000000\<rparr>
   \<and> (\<exists>js. register_scheduled_tasks demo_config False
          \<lparr>dt_day = 0, dt_us = 10800000000\<rparr> \<lparr>dt_day = 0, dt_us = 10800000000\<rparr>
          \<lparr>dt_day = 0, dt_us = 10800000000\<rparr> (Some []) = (None, Some js)
        \<and> run_now_jobs js = [])"
  using register_run_now [of demo_config False
          "\<lparr>dt_day = 0, dt_us = 10800000000\<rparr>" "\<lparr>dt_day = 0, dt_us = 10800000000\<rparr>"
          "\<lparr>dt_day = 0, dt_us = 10800000000\<rparr>" "[]"]
  by (simp add: demo_config_def in_window_closed_def)

section \<open>The admin handler\<close>

lemma config_unbound:
  "py_global admin_globals ''config'' = Inl (NameError ''name config is not defined'')"
  by (simp add: py_global_def admin_globals_def)

lemma fold_requests: "fold (\<lambda>tid reqs. reqs @ [tid]) ids reqs = reqs @ ids"
  by (induction ids arbitrary: reqs) simp_all

lemma save_except_keeps:
  "as_config (snd (save_except e s)) = as_config s"
  "as_saved (snd (save_except e s)) = as_saved s"
  "as_end_requests (snd (save_except e s)) = as_end_requests s"
  "as_scheduler (snd (save_except e s)) = as_scheduler s"
  by (cases e; simp add: flash_def)+

lemma update_out_of_range:
  assumes "f_start f = Some a" "f_duration f = Some d"
    and "\<not> (0 \<le> a \<and> a \<le> 23 \<and> 0 < d \<and> d \<le> 60)"
  shows "fst (update_scheduledtasks f save_result worker_tasks clock0 clock1 clock2 s) = None"
    and "\<exists>m. (m, ''error'') \<in> set (as_flashes (snd (update_scheduledtasks f save_result worker_tasks clock0 clock1 clock2 s)))"
    and "as_saved (snd (update_scheduledtasks f save_result worker_tasks clock0 clock1 clock2 s)) = as_saved s"
    and "as_end_requests (snd (update_scheduledtasks f save_result worker_tasks clock0 clock1 clock2 s)) = as_end_requests s"
    and "as_scheduler (snd (update_scheduledtasks f save_result worker_tasks clock0 clock1 clock2 s)) = as_scheduler s"
  using assms
  by (auto simp add: update_scheduledtasks_def check_start_def check_duration_def
        set_checkboxes_def flash_def)

lemma update_config_fields:
  assumes "f_start f = Some a" "f_duration f = Some d"
  shows "schedule_start_time (as_config (snd (update_scheduledtasks f save_result worker_tasks clock0 clock1 clock2 s)))
           = (if 0 \<le> a \<and> a \<le> 23 then a else schedule_start_time (as_config s))"
    and "schedule_duration (as_config (snd (update_scheduledtasks f save_result worker_tasks clock0 clock1 clock2 s)))
           = (if 0 < d \<and> d \<le> 60 then d else schedule_duration (as_config s))"
  using assms
  by (auto simp add: update_scheduledtasks_def check_start_def check_duration_def
        set_checkboxes_def flash_def save_and_reregister_def config_unbound Let_def
        save_except_keeps split: option.splits)

lemma update_saved_in_range:
  assumes "f_start f = Some a" "f_duration f = Some d"
    and "0 \<le> a" "a \<le> 23" "0 < d" "d \<le> 60"
  shows "\<exists>s'. update_scheduledtasks f None worker_tasks clock0 clock1 clock2 s =
                (Some (NameError ''name config is not defined''), s')
          \<and> as_scheduler s' = as_scheduler s
          \<and> as_saved s' = Some (as_config s')
          \<and> schedule_start_time (as_config s') = a
          \<and> schedule_duration (as_config s') = d
          \<and> as_end_requests s' =
               as_end_requests s @ map (\<lambda>e. task_id (entry_task e)) (filter sweep_target worker_tasks)"
  using assms
  by (simp add: update_scheduledtasks_def check_start_def check_duration_def
        set_checkboxes_def flash_def save_and_reregister_def config_unbound Let_def
        end_scheduled_tasks_fold fold_requests)

text \<open>
  C3. After an admin configuration change with both values in range and a successful save,
  \<open>update_scheduledtasks\<close> saves the configuration and makes the cancellation sweep, and then
  raises \<open>NameError\<close>: line 1292 evaluates \<open>config.schedule_reconnect\<close>, and \<open>admin.py\<close> binds
  no name \<open>config\<close>. \<open>register_scheduled_tasks\<close> is never called, so the scheduler keeps the
  trigger jobs of the old timing and the new triggers are never installed.
\<close>

theorem update_scheduledtasks_never_reregisters:
  assumes "f_start f = Some a" "f_duration f = Some d"
    and "0 \<le> a" "a \<le> 23" "0 < d" "d \<le> 60"
  shows "\<exists>s'. update_scheduledtasks f None worker_tasks clock0 clock1 clock2 s =
                (Some (NameError ''name config is not defined''), s')
          \<and> as_scheduler s' = as_scheduler s
          \<and> as_saved s' = Some (as_config s')
          \<and> schedule_start_time (as_config s') = a
          \<and> schedule_duration (as_config s') = d
          \<and> as_end_requests s' =
               as_end_requests s @ map (\<lambda>e. task_id (entry_task e)) (filter sweep_target worker_tasks)"
  using assms by (rule update_saved_in_range)

theorem update_scheduledtasks_never_reregisters_witness:
  "\<exists>s'. update_scheduledtasks (demo_form 4 30) None []
           \<lparr>dt_day = 0, dt_us = 0\<rparr> \<lparr>dt_day = 0, dt_us = 0\<rparr> \<lparr>dt_day = 0, dt_us = 0\<rparr>
           demo_admin_state = (Some (NameError ''name config is not defined''), s')
        \<and> as_scheduler s' = Some [\<lparr>job_func = EndScheduledTasks, job_trigger = CronTrigger 3 (Some 10),
                                     job_name = ''end scheduled task''\<rparr>]
        \<and> schedule_start_time (as_config s') = 4
        \<and> schedule_duration (as_config s') = 30"
  using update_scheduledtasks_never_reregisters [of "demo_form 4 30" 4 30 "[]"
           "\<lparr>dt_day = 0, dt_us = 0\<rparr>" "\<lparr>dt_day = 0, dt_us = 0\<rparr>" "\<lparr>dt_day = 0, dt_us = 0\<rparr>"
           demo_admin_state]
  by (auto simp add: demo_form_def demo_admin_state_def)

text \<open>
  C10. \<open>update_scheduledtasks\<close> takes a submitted start time into the configuration exactly
  when it lies in 0..23 and a submitted duration exactly when it lies in 1..60. If either
  value is out of range the handler flashes an error, saves nothing, requests no
  cancellation and leaves the scheduler alone. With both values in range and a successful
  save, the configuration is saved and the cancellation sweep is made.
\<close>

theorem update_scheduledtasks_validates:
  assumes "f_start f = Some a" "f_duration f = Some d"
  shows "schedule_start_time (as_config (snd (update_scheduledtasks f save_result worker_tasks clock0 clock1 clock2 s)))
           = (if 0 \<le> a \<and> a \<le> 23 then a else schedule_start_time (as_config s))
   \<and> schedule_duration (as_config (snd (update_scheduledtasks f save_result worker_tasks clock0 clock1 clock2 s)))
           = (if 0 < d \<and> d \<le> 60 then d else schedule_duration (as_config s))
   \<and> (\<not> (0 \<le> a \<and> a \<le> 23 \<and> 0 < d \<and> d \<le> 60) \<longrightarrow>
         fst (update_scheduledtasks f save_result worker_tasks clock0 clock1 clock2 s) = None
       \<and> (\<exists>m. (m, ''error'') \<in> set (as_flashes (snd (update_scheduledtasks f save_result worker_tasks clock0 clock1 clock2 s))))
       \<and> as_saved (snd (update_scheduledtasks f save_result worker_tasks clock0 clock1 clock2 s)) = as_saved s
       \<and> as_end_requests (snd (update_scheduledtasks f save_result worker_tasks clock0 clock1 clock2 s)) = as_end_requests s
       \<and> as_scheduler (snd (update_scheduledtasks f save_result worker_tasks clock0 clock1 clock2 s)) = as_scheduler s)
   \<and> (0 \<le> a \<and> a \<le> 23 \<and> 0 < d \<and> d \<le> 60 \<and> save_result = None \<longrightarrow>
         as_saved (snd (update_scheduledtasks f save_result worker_tasks clock0 clock1 clock2 s))
           = Some (as_config (snd (update_scheduledtasks f save_result worker_tasks clock0 clock1 clock2 s)))
       \<and> as_end_requests (snd (update_scheduledtasks f save_result worker_tasks clock0 clock1 clock2 s))
           = as_end_requests s @ map (\<lambda>e. task_id (entry_task e)) (filter sweep_target worker_tasks))"
proof (intro conjI impI)
  show "schedule_start_time (as_config (snd (update_scheduledtasks f save_result worker_tasks clock0 clock1 clock2 s)))
           = (if 0 \<le> a \<and> a \<le> 23 then a else schedule_start_time (as_config s))"
    by (rule update_config_fields(1)[OF assms])
  show "schedule_duration (as_config (snd (update_scheduledtasks f save_result worker_tasks clock0 clock1 clock2 s)))
           = (if 0 < d \<and> d \<le> 60 then d else schedule_duration (as_config s))"
    by (rule update_config_fields(2)[OF assms])
next
  assume r: "\<not> (0 \<le> a \<and> a \<le> 23 \<and> 0 < d \<and> d \<le> 60)"
  note U = update_out_of_range[OF assms r, of save_result worker_tasks clock0 clock1 clock2 s]
  show "fst (update_scheduledtasks f save_result worker_tasks clock0 clock1 clock2 s) = None" by (rule U(1))
  show "\<exists>m. (m, ''error'') \<in> set (as_flashes (snd (update_scheduledtasks f save_result worker_tasks clock0 clock1 clock2 s)))" by (rule U(2))
  show "as_saved (snd (update_scheduledtasks f save_result worker_tasks clock0 clock1 clock2 s)) = as_saved s" by (rule U(3))
  show "as_end_requests (snd (update_scheduledtasks f save_result worker_tasks clock0 clock1 clock2 s)) = as_end_requests s" by (rule U(4))
  show "as_scheduler (snd (update_scheduledtasks f save_result worker_tasks clock0 clock1 clock2 s)) = as_scheduler s" by (rule U(5))
next
  assume r: "0 \<le> a \<and> a \<le> 23 \<and> 0 < d \<and> d \<le> 60 \<and> save_result = None"
  then obtain s' where s': "update_scheduledtasks f save_result worker_tasks clock0 clock1 clock2 s =
                (Some (NameError ''name config is not defined''), s')"
     "as_saved s' = Some (as_config s')"
     "as_end_requests s' = as_end_requests s @ map (\<lambda>e. task_id (entry_task e)) (filter sweep_target worker_tasks)"
    using update_saved_in_range[OF assms, of worker_tasks clock0 clock1 clock2 s] by auto
  show "as_saved (snd (update_scheduledtasks f save_result worker_tasks clock0 clock1 clock2 s))
           = Some (as_config (snd (update_scheduledtasks f save_result worker_tasks clock0 clock1 clock2 s)))"
    by (simp add: s')
  show "as_end_requests (snd (update_scheduledtasks f save_result worker_tasks clock0 clock1 clock2 s))
           = as_end_requests s @ map (\<lambda>e. task_id (entry_task e)) (filter sweep_target worker_tasks)"
    by (simp add: s')
qed

theorem update_scheduledtasks_validates_witness:
  "fst (update_scheduledtasks (demo_form 25 30) None []
           \<lparr>dt_day = 0, dt_us = 0\<rparr> \<lparr>dt_day = 0, dt_us = 0\<rparr> \<lparr>dt_day = 0, dt_us = 0\<rparr>
           demo_admin_state) = None
   \<and> as_saved (snd (update_scheduledtasks (demo_form 25 30) None []
           \<lparr>dt_day = 0, dt_us = 0\<rparr> \<lparr>dt_day = 0, dt_us = 0\<rparr> \<lparr>dt_day = 0, dt_us = 0\<rparr>
           demo_admin_state)) = None
   \<and> schedule_start_time (as_config (snd (update_scheduledtasks (demo_form 25 30) None []
           \<lparr>dt_day = 0, dt_us = 0\<rparr> \<lparr>dt_day = 0, dt_us = 0\<rparr> \<lparr>dt_day = 0, dt_us = 0\<rparr>
           demo_admin_state))) = 3
   \<and> schedule_duration (as_config (snd (update_scheduledtasks (demo_form 25 30) None []
           \<lparr>dt_day = 0, dt_us = 0\<rparr> \<lparr>dt_day = 0, dt_us = 0\<rparr> \<lparr>dt_day = 0, dt_us = 0\<rparr>
           demo_admin_state))) = 30"
  using update_scheduledtasks_validates [of "demo_form 25 30" 25 30 None "[]"
           "\<lparr>dt_day = 0, dt_us = 0\<rparr>" "\<lparr>dt_day = 0, dt_us = 0\<rparr>" "\<lparr>dt_day = 0, dt_us = 0\<rparr>"
           demo_admin_state]
  by (simp add: demo_form_def demo_admin_state_def demo_config_def)

end
